theory Spec2Isabelle
  imports Complex_Main "HOL-Library.Sublist"
begin

section \<open>The upskilling roadmap of JobRoadmapPopup.tsx\<close>

text \<open>
  The component \<^verbatim>\<open>JobRoadmapPopup\<close> derives, on every render, a list of roadmap steps
  from \<^verbatim>\<open>job.missingSkills\<close> and the imported table \<^verbatim>\<open>skillTaxonomy\<close>, sums the
  weeks of the steps, and shows one of two views driven by two pieces of React state.

  Conventions of the embedding.
  \<^item> A JavaScript string is a \<open>string\<close>: a list of code units, each below 256 (the
    Latin-1 range of UTF-16, which holds every ASCII skill name). \<open>length\<close> is then
    JavaScript's \<^verbatim>\<open>.length\<close>. Strings holding code units from 256 on are outside the
    embedding; among them are the strings with an unpaired surrogate, on which
    \<^verbatim>\<open>encodeURIComponent\<close> raises \<^verbatim>\<open>URIError\<close>.
  \<^item> A JavaScript number is a double, embedded as the \<open>real\<close> it stands for. The
    product \<^verbatim>\<open>learningTimeMonths * 4\<close> is exact on doubles; a sum and a quotient are the
    exact result rounded to the nearest double, ties to the even significand
    (\<open>addDouble\<close>, \<open>divDouble\<close>). The significand has 53 bits; the range of the
    exponent is not modelled, so results beyond the largest double (the infinities),
    below the smallest normal double, and \<^verbatim>\<open>NaN\<close> are outside the embedding. Array
    indices and lengths are \<open>nat\<close> or \<open>int\<close>.
  \<^item> \<^verbatim>\<open>skillTaxonomy\<close> and the type \<^verbatim>\<open>Job\<close> come from \<^verbatim>\<open>@/data/mockData\<close>; the table is
    a parameter \<open>string \<rightharpoonup> SkillTaxonomyEntry\<close> and of the job only the optional field
    \<^verbatim>\<open>missingSkills\<close> is read by the code modelled here.
\<close>

subsection \<open>Data\<close>

datatype Difficulty = Easy | Medium | Hard

datatype ResourceType = course | project | article | video

record SkillTaxonomyEntry =
  difficulty :: Difficulty
  learningTimeMonths :: real
  category :: string

record LearningResource =
  type :: ResourceType
  title :: string
  provider :: string
  duration :: string
  link :: "string option"

subsection \<open>The two string functions of the platform\<close>

text \<open>
  \<^verbatim>\<open>encodeURIComponent\<close> (ECMAScript, Encode with the unreserved set of URI components):
  the letters, the digits and \<^verbatim>\<open>- _ . ! ~ * ' ( )\<close> are kept; every other code unit is
  written as its UTF-8 bytes, each as \<^verbatim>\<open>%XX\<close> with upper-case hexadecimal digits. A code
  unit below 128 is one byte, one from 128 to 255 is two bytes.
\<close>

definition uriUnreserved :: "char \<Rightarrow> bool" where
  "uriUnreserved c =
     (c \<in> set (''ABCDEFGHIJKLMNOPQRSTUVWXYZabcdefghijklmnopqrstuvwxyz0123456789-_.!~*()''
               @ [CHR 0x27]))"

definition hexDigit :: "nat \<Rightarrow> char" where
  "hexDigit n = ''0123456789ABCDEF'' ! (n mod 16)"

definition percentByte :: "nat \<Rightarrow> string" where
  "percentByte b = [CHR ''%'', hexDigit (b div 16), hexDigit (b mod 16)]"

definition encodeUnit :: "char \<Rightarrow> string" where
  "encodeUnit c =
     (let n = (of_char c :: nat) in
      if uriUnreserved c then [c]
      else if n < 128 then percentByte n
      else percentByte (192 + n div 64) @ percentByte (128 + n mod 64))"

definition encodeURIComponent :: "string \<Rightarrow> string" where
  "encodeURIComponent s = concat (map encodeUnit s)"

text \<open>
  \<^verbatim>\<open>String.prototype.toLowerCase\<close> on code units below 256: \<^verbatim>\<open>A\<close> to \<^verbatim>\<open>Z\<close> and the
  upper-case letters from U+00C0 to U+00DE (without the multiplication sign U+00D7) move
  32 places up; every other code unit stays.
\<close>

definition lowerUnit :: "char \<Rightarrow> char" where
  "lowerUnit c =
     (let n = (of_char c :: nat) in
      if (65 \<le> n \<and> n \<le> 90) \<or> (192 \<le> n \<and> n \<le> 222 \<and> n \<noteq> 215) then char_of (n + 32) else c)"

definition toLowerCase :: "string \<Rightarrow> string" where
  "toLowerCase s = map lowerUnit s"

subsection \<open>Double-precision arithmetic\<close>

text \<open>
  \<open>binade x\<close> is the exponent \<open>k\<close> with \<open>2 ^ k \<le> x < 2 ^ (k + 1)\<close> of a positive \<open>x\<close>, found
  by halving or doubling \<open>x\<close> until it lies between 1 and 2.
\<close>

function binade :: "real \<Rightarrow> int" where
  "binade x = (if 2 \<le> x then binade (x / 2) + 1
               else if 0 < x \<and> x < 1 then binade (2 * x) - 1
               else 0)"
  by pat_completeness auto
termination
proof (relation "measure (\<lambda>x. if 1 \<le> x then nat \<lceil>x\<rceil> else nat \<lceil>1 / x\<rceil> + 2)")
  show "wf (measure (\<lambda>x::real. if 1 \<le> x then nat \<lceil>x\<rceil> else nat \<lceil>1 / x\<rceil> + 2))"
    by simp
next
  fix x :: real
  assume "2 \<le> x"
  then have "nat \<lceil>x / 2\<rceil> < nat \<lceil>x\<rceil>" by linarith
  then show "(x / 2, x) \<in> measure (\<lambda>x. if 1 \<le> x then nat \<lceil>x\<rceil> else nat \<lceil>1 / x\<rceil> + 2)"
    using \<open>2 \<le> x\<close> by simp
next
  fix x :: real
  assume "\<not> 2 \<le> x" and "0 < x \<and> x < 1"
  then have x: "0 < x" "x < 1" by simp_all
  have half: "nat \<lceil>y / 2\<rceil> < nat \<lceil>y\<rceil>" if "2 \<le> y" for y :: real
    using that by linarith
  show "(2 * x, x) \<in> measure (\<lambda>x. if 1 \<le> x then nat \<lceil>x\<rceil> else nat \<lceil>1 / x\<rceil> + 2)"
  proof (cases "1 \<le> 2 * x")
    case True
    have "\<lceil>2 * x\<rceil> \<le> 2" using x by linarith
    then have "nat \<lceil>2 * x\<rceil> \<le> 2" by linarith
    moreover have "0 < 1 / x" using x by simp
    then have "0 < nat \<lceil>1 / x\<rceil>" by linarith
    ultimately have "nat \<lceil>2 * x\<rceil> < nat \<lceil>1 / x\<rceil> + 2" by linarith
    with True x show ?thesis by simp
  next
    case False
    then have "2 < 1 / x" using x by (simp add: field_simps)
    then have "nat \<lceil>1 / x / 2\<rceil> < nat \<lceil>1 / x\<rceil>"
      by (intro half) simp
    moreover have "1 / (2 * x) = 1 / x / 2" by simp
    ultimately have "nat \<lceil>1 / (2 * x)\<rceil> < nat \<lceil>1 / x\<rceil>" by (simp only:)
    then show ?thesis using False x by (simp add: mult.commute)
  qed
qed

declare binade.simps [simp del]

text \<open>Rounding to the nearest integer, a tie to the even one.\<close>

definition roundTiesToEven :: "real \<Rightarrow> int" where
  "roundTiesToEven x =
     (let f = \<lfloor>x\<rfloor> in
      if x - of_int f < 1 / 2 then f
      else if 1 / 2 < x - of_int f then f + 1
      else if even f then f else f + 1)"

text \<open>
  The double nearest to a real: with \<open>u\<close> the exponent of the last of the 53 bits of the
  significand, \<open>x\<close> is rounded to a multiple of \<open>2 ^ u\<close>. The operators \<^verbatim>\<open>+\<close> and \<^verbatim>\<open>/\<close> of
  JavaScript round the exact result in this way.
\<close>

definition toDouble :: "real \<Rightarrow> real" where
  "toDouble x =
     (let u = binade \<bar>x\<bar> - 52 in of_int (roundTiesToEven (x / 2 powi u)) * 2 powi u)"

definition addDouble :: "real \<Rightarrow> real \<Rightarrow> real" where
  "addDouble x y = toDouble (x + y)"

definition divDouble :: "real \<Rightarrow> real \<Rightarrow> real" where
  "divDouble x y = toDouble (x / y)"

subsection \<open>generateResources and generateMilestones\<close>

definition generateResources :: "string \<Rightarrow> LearningResource list" where
  "generateResources skill =
     (let encodedSkill = encodeURIComponent skill in
      [ \<lparr> type = course,
          title = ''Complete '' @ skill @ '' Masterclass'',
          provider = ''Udemy'',
          duration = ''20 hours'',
          link = Some (''https://www.udemy.com/courses/search/?q='' @ encodedSkill) \<rparr>,
        \<lparr> type = video,
          title = skill @ '' Crash Course'',
          provider = ''YouTube'',
          duration = ''2 hours'',
          link = Some (''https://www.youtube.com/results?search_query='' @ encodedSkill
                       @ ''+tutorial'') \<rparr>,
        \<lparr> type = project,
          title = ''Build a '' @ skill @ '' Project'',
          provider = ''GitHub'',
          duration = ''10 hours'',
          link = Some (''https://github.com/topics/'' @ toLowerCase encodedSkill) \<rparr>,
        \<lparr> type = article,
          title = skill @ '' Best Practices Guide'',
          provider = ''Google'',
          duration = ''30 mins'',
          link = Some (''https://www.google.com/search?q='' @ encodedSkill
                       @ ''+best+practices+guide'') \<rparr> ])"

definition generateMilestones :: "string \<Rightarrow> string list" where
  "generateMilestones skill =
     [ ''Understand '' @ skill @ '' fundamentals and core concepts'',
       ''Complete hands-on exercises and tutorials'',
       ''Build a mini-project using '' @ skill,
       ''Apply '' @ skill @ '' in a real-world scenario'' ]"

subsection \<open>The derived values of the component\<close>

record RoadmapStep =
  skill :: string
  difficulty :: Difficulty
  weeks :: real
  order :: nat
  category :: string
  resources :: "LearningResource list"
  milestones :: "string list"

text \<open>\<^verbatim>\<open>const missingSkills = job.missingSkills || []\<close>: an array is never falsy, so
  only the absent field takes the right-hand side.\<close>

definition missingSkills :: "string list option \<Rightarrow> string list" where
  "missingSkills jobMissingSkills = (case jobMissingSkills of None \<Rightarrow> [] | Some xs \<Rightarrow> xs)"

text \<open>
  The callback of \<^verbatim>\<open>missingSkills.map((skill, index) => ...)\<close>. The optional chains
  \<^verbatim>\<open>taxonomy?.f || d\<close> take \<open>d\<close> when there is no entry and also when the field is
  falsy: a difficulty is one of three non-empty strings and never falsy, a number is
  falsy when it is 0, a string when it is empty.
\<close>

definition roadmapStep ::
  "(string \<rightharpoonup> SkillTaxonomyEntry) \<Rightarrow> string \<Rightarrow> nat \<Rightarrow> RoadmapStep" where
  "roadmapStep skillTaxonomy name index =
     (let taxonomy = skillTaxonomy name;
          difficulty =
            (case taxonomy of
               Some t \<Rightarrow> SkillTaxonomyEntry.difficulty t
             | None \<Rightarrow> if length name > 8 then Hard
                        else if length name > 5 then Medium else Easy);
          fallbackWeeks = (if difficulty = Hard then 4 else if difficulty = Medium then 2 else 1);
          weeks =
            (case taxonomy of
               Some t \<Rightarrow> if learningTimeMonths t \<noteq> 0 then learningTimeMonths t * 4
                         else fallbackWeeks
             | None \<Rightarrow> fallbackWeeks)
      in \<lparr> skill = name,
           difficulty = difficulty,
           weeks = weeks,
           order = index + 1,
           category =
             (case taxonomy of
                Some t \<Rightarrow> if SkillTaxonomyEntry.category t \<noteq> [] then SkillTaxonomyEntry.category t
                          else ''General''
              | None \<Rightarrow> ''General''),
           resources = generateResources name,
           milestones = generateMilestones name \<rparr>)"

definition roadmapSteps ::
  "(string \<rightharpoonup> SkillTaxonomyEntry) \<Rightarrow> string list \<Rightarrow> RoadmapStep list" where
  "roadmapSteps skillTaxonomy skills =
     map (\<lambda>(index, name). roadmapStep skillTaxonomy name index) (enumerate 0 skills)"

text \<open>\<^verbatim>\<open>roadmapSteps.reduce((acc, step) => acc + step.weeks, 0)\<close> is a left fold of the
  addition of doubles.\<close>

definition totalWeeks :: "RoadmapStep list \<Rightarrow> real" where
  "totalWeeks steps = foldl (\<lambda>acc step. addDouble acc (weeks step)) 0 steps"

text \<open>\<^verbatim>\<open>Math.ceil(totalWeeks / 4)\<close>.\<close>

definition totalMonths :: "RoadmapStep list \<Rightarrow> int" where
  "totalMonths steps = \<lceil>divDouble (totalWeeks steps) 4\<rceil>"

subsection \<open>The view state\<close>

text \<open>
  \<^verbatim>\<open>useState(false)\<close> and \<^verbatim>\<open>useState(0)\<close>: the two pieces of state and their first
  values. The state lives as long as the component is mounted.
\<close>

record ViewState =
  showLearningPath :: bool
  activeSkillIndex :: int

definition initialState :: ViewState where
  "initialState = \<lparr> showLearningPath = False, activeSkillIndex = 0 \<rparr>"

datatype View = Overview | LearningPath | TypeError

text \<open>
  \<^verbatim>\<open>if (showLearningPath && roadmapSteps.length > 0)\<close> renders the learning path, everything
  else the overview. The parameter \<open>n\<close> is \<^verbatim>\<open>roadmapSteps.length\<close>. The learning path
  reads \<^verbatim>\<open>roadmapSteps[activeSkillIndex]\<close>, which is \<^verbatim>\<open>undefined\<close> for an index outside the
  array; the render then throws a \<^verbatim>\<open>TypeError\<close> at \<^verbatim>\<open>activeStep.skill\<close> and shows
  nothing.
\<close>

definition view :: "nat \<Rightarrow> ViewState \<Rightarrow> View" where
  "view n st =
     (if showLearningPath st \<and> n > 0
      then (if 0 \<le> activeSkillIndex st \<and> activeSkillIndex st < int n then LearningPath
            else TypeError)
      else Overview)"

text \<open>
  The buttons that change the state. \<open>SidebarStep idx\<close> is the sidebar button of the
  step at position \<open>idx\<close>; \<open>NextSkill\<close> is the button on the right of the navigation row,
  which is "Next Skill" before the last step and "Complete Journey" (a button without a
  handler) on it; \<open>PreviousSkill\<close> is disabled on the first step.
\<close>

datatype Control =
  BackToOverview | SidebarStep nat | PreviousSkill | NextSkill | StartMyLearningJourney

text \<open>A click on a control: \<open>None\<close> when the view on the screen does not show it, and
  when the render has failed and the screen shows nothing.\<close>

definition click :: "nat \<Rightarrow> Control \<Rightarrow> ViewState \<Rightarrow> ViewState option" where
  "click n c st =
     (case view n st of
        LearningPath \<Rightarrow>
          (case c of
             BackToOverview \<Rightarrow> Some (st\<lparr>showLearningPath := False\<rparr>)
           | SidebarStep idx \<Rightarrow>
               if idx < n then Some (st\<lparr>activeSkillIndex := int idx\<rparr>) else None
           | PreviousSkill \<Rightarrow>
               if activeSkillIndex st = 0 then Some st
               else Some (st\<lparr>activeSkillIndex := max 0 (activeSkillIndex st - 1)\<rparr>)
           | NextSkill \<Rightarrow>
               if activeSkillIndex st < int n - 1
               then Some (st\<lparr>activeSkillIndex := activeSkillIndex st + 1\<rparr>)
               else Some st
           | StartMyLearningJourney \<Rightarrow> None)
      | Overview \<Rightarrow>
          (case c of
             StartMyLearningJourney \<Rightarrow>
               if n > 0 then Some (st\<lparr>showLearningPath := True\<rparr>) else None
           | _ \<Rightarrow> None)
      | TypeError \<Rightarrow> None)"

text \<open>A sequence of clicks, from left to right; it stops at the first click that the
  screen does not offer.\<close>

fun clicks :: "nat \<Rightarrow> Control list \<Rightarrow> ViewState \<Rightarrow> ViewState option" where
  "clicks n [] st = Some st"
| "clicks n (c # cs) st = (case click n c st of None \<Rightarrow> None | Some st' \<Rightarrow> clicks n cs st')"

section \<open>Properties of the roadmap\<close>

subsection \<open>Steps follow the input\<close>

lemma length_roadmapSteps: "length (roadmapSteps T ms) = length ms"
  by (simp add: roadmapSteps_def)

lemma nth_roadmapSteps:
  "i < length ms \<Longrightarrow> roadmapSteps T ms ! i = roadmapStep T (ms ! i) i"
  by (simp add: roadmapSteps_def nth_enumerate_eq)

lemma roadmapSteps_Nil: "roadmapSteps T [] = []"
  by (simp add: roadmapSteps_def)

lemma skill_roadmapStep: "skill (roadmapStep T name i) = name"
  by (simp add: roadmapStep_def Let_def)

lemma order_roadmapStep: "order (roadmapStep T name i) = i + 1"
  by (simp add: roadmapStep_def Let_def)

lemma map_skill_roadmapSteps: "map skill (roadmapSteps T ms) = ms"
  by (rule nth_equalityI) (simp_all add: length_roadmapSteps nth_roadmapSteps skill_roadmapStep)

text \<open>
  Claim C1. For every list of missing skills and every taxonomy, the steps are as many as
  the skills, the skills of the steps read in order are the input list itself (so nothing
  is dropped, merged or moved, whatever the difficulty, category or weeks of a step), and
  the step at position \<open>i\<close> carries the skill at position \<open>i\<close> and the order \<open>i + 1\<close>.
\<close>

theorem roadmap_follows_input:
  "length (roadmapSteps T ms) = length ms
   \<and> map skill (roadmapSteps T ms) = ms
   \<and> (\<forall>i<length ms. skill (roadmapSteps T ms ! i) = ms ! i
                     \<and> order (roadmapSteps T ms ! i) = i + 1)"
  by (simp add: length_roadmapSteps map_skill_roadmapSteps nth_roadmapSteps
      skill_roadmapStep order_roadmapStep)

text \<open>An input with a repeated skill: the third step is the second \<open>Go\<close>.\<close>

theorem roadmap_follows_input_witness:
  "(2::nat) < length [''Go'', ''Kubernetes'', ''Go'']
   \<and> length (roadmapSteps Map.empty [''Go'', ''Kubernetes'', ''Go'']) = 3
   \<and> map skill (roadmapSteps Map.empty [''Go'', ''Kubernetes'', ''Go''])
       = [''Go'', ''Kubernetes'', ''Go'']
   \<and> skill (roadmapSteps Map.empty [''Go'', ''Kubernetes'', ''Go''] ! 2) = ''Go''
   \<and> order (roadmapSteps Map.empty [''Go'', ''Kubernetes'', ''Go''] ! 2) = 3"
  using roadmap_follows_input [of Map.empty "[''Go'', ''Kubernetes'', ''Go'']"]
  by simp

subsection \<open>Rounding to a double\<close>

lemma binade_bracket:
  "0 < x \<Longrightarrow> 2 powi binade x \<le> x \<and> x < 2 powi (binade x + 1)"
proof (induction x rule: binade.induct)
  case (1 x)
  show ?case
  proof (cases "2 \<le> x")
    case True
    then have b: "binade x = binade (x / 2) + 1" by (subst binade.simps) simp
    from True "1.prems" have "2 powi binade (x / 2) \<le> x / 2 \<and> x / 2 < 2 powi (binade (x / 2) + 1)"
      by (intro "1.IH"(1)) simp_all
    then show ?thesis unfolding b by (simp add: power_int_add field_simps)
  next
    case False
    show ?thesis
    proof (cases "x < 1")
      case True
      with False "1.prems" have b: "binade x = binade (2 * x) - 1" by (subst binade.simps) simp
      from True False "1.prems"
      have "2 powi binade (2 * x) \<le> 2 * x \<and> 2 * x < 2 powi (binade (2 * x) + 1)"
        by (intro "1.IH"(2)) simp_all
      then show ?thesis unfolding b by (simp add: power_int_add power_int_diff field_simps)
    next
      case ge: False
      with False have b: "binade x = 0" by (subst binade.simps) simp
      from ge False show ?thesis unfolding b by simp
    qed
  qed
qed

lemma binade_eqI:
  assumes "2 powi k \<le> x" and "x < 2 powi (k + 1)"
  shows "binade x = k"
proof -
  have pos: "0 < x"
    using assms(1) by (rule less_le_trans [rotated]) simp
  from binade_bracket [OF pos]
  have lo: "2 powi binade x \<le> x" and hi: "x < 2 powi (binade x + 1)" by simp_all
  have "\<not> binade x < k"
  proof
    assume "binade x < k"
    then have "(2::real) powi (binade x + 1) \<le> 2 powi k"
      by (intro power_int_increasing) simp_all
    with hi assms(1) show False by linarith
  qed
  moreover have "\<not> k < binade x"
  proof
    assume "k < binade x"
    then have "(2::real) powi (k + 1) \<le> 2 powi binade x"
      by (intro power_int_increasing) simp_all
    with lo assms(2) show False by linarith
  qed
  ultimately show ?thesis by linarith
qed


lemma roundTiesToEven_of_int: "roundTiesToEven (of_int n) = n"
  by (simp add: roundTiesToEven_def)

lemma roundTiesToEven_bounds:
  "\<lfloor>x\<rfloor> \<le> roundTiesToEven x \<and> roundTiesToEven x \<le> \<lceil>x\<rceil>"
proof -
  have "x - of_int \<lfloor>x\<rfloor> < 1 / 2 \<or> \<lfloor>x\<rfloor> + 1 \<le> \<lceil>x\<rceil>"
    by linarith
  moreover have "\<lfloor>x\<rfloor> \<le> \<lceil>x\<rceil>" by linarith
  ultimately show ?thesis
    by (auto simp: roundTiesToEven_def Let_def)
qed

lemma toDouble_0: "toDouble 0 = 0"
  by (simp add: toDouble_def Let_def roundTiesToEven_def)

lemma binade_less:
  assumes "0 < x" and "x < 2 powi k"
  shows "binade x < k"
proof (rule ccontr)
  assume "\<not> binade x < k"
  then have "(2::real) powi k \<le> 2 powi binade x"
    by (intro power_int_increasing) simp_all
  with binade_bracket [OF assms(1)] assms(2) show False by linarith
qed

lemma toDouble_exact_less:
  assumes x: "x = of_int m * 2 powi e" and m: "\<bar>m\<bar> < 2 ^ 53"
  shows "toDouble x = x"
proof (cases "m = 0")
  case True
  with x show ?thesis by (simp add: toDouble_0)
next
  case False
  define u where "u = binade \<bar>x\<bar> - 52"
  have absx: "\<bar>x\<bar> = of_int \<bar>m\<bar> * 2 powi e"
    unfolding x by (simp add: abs_mult power_int_abs)
  have pos: "0 < \<bar>x\<bar>"
    unfolding x using False by simp
  have "real_of_int \<bar>m\<bar> < 2 ^ 53"
    using m by (metis of_int_less_numeral_power_cancel_iff)
  then have "\<bar>x\<bar> < 2 ^ 53 * 2 powi e"
    unfolding absx by (intro mult_strict_right_mono) simp_all
  also have "\<dots> = 2 powi (53 + e)"
    by (simp add: power_int_add)
  finally have "binade \<bar>x\<bar> < 53 + e"
    using pos by (intro binade_less)
  then have ue: "u \<le> e" by (simp add: u_def)
  have "x / 2 powi u = of_int m * 2 powi (e - u)"
    unfolding x by (simp add: power_int_diff)
  also have "\<dots> = of_int (m * 2 ^ nat (e - u))"
    using ue by (simp add: power_int_nonneg_exp)
  finally have q: "x / 2 powi u = of_int (m * 2 ^ nat (e - u))" .
  have "toDouble x = of_int (roundTiesToEven (x / 2 powi u)) * 2 powi u"
    by (simp add: toDouble_def Let_def u_def)
  also have "\<dots> = x / 2 powi u * 2 powi u"
    unfolding q roundTiesToEven_of_int ..
  also have "\<dots> = x" by simp
  finally show ?thesis .
qed

lemma toDouble_exact:
  assumes x: "x = of_int m * 2 powi e" and m: "\<bar>m\<bar> \<le> 2 ^ 53"
  shows "toDouble x = x"
proof (cases "\<bar>m\<bar> < 2 ^ 53")
  case True
  with x show ?thesis by (rule toDouble_exact_less)
next
  case False
  with m have "\<bar>m\<bar> = 2 ^ 53" by simp
  then have "m = 2 ^ 53 \<or> m = - (2 ^ 53)" by linarith
  then have "x = of_int (m div 2) * 2 powi (e + 1)"
    unfolding x by (auto simp: power_int_add)
  moreover from \<open>m = 2 ^ 53 \<or> m = - (2 ^ 53)\<close> have "\<bar>m div 2\<bar> < 2 ^ 53" by auto
  ultimately show ?thesis by (rule toDouble_exact_less)
qed

lemma toDouble_of_int:
  assumes "\<bar>m\<bar> \<le> 2 ^ 53"
  shows "toDouble (of_int m) = of_int m"
  using assms by (intro toDouble_exact [where e = 0]) simp_all


lemma toDouble_representable:
  obtains m e where "toDouble x = of_int m * 2 powi e" and "\<bar>m\<bar> \<le> 2 ^ 53"
proof (cases "x = 0")
  case True
  then have "toDouble x = of_int 0 * 2 powi 0" by (simp add: toDouble_0)
  then show thesis by (rule that) simp
next
  case False
  define u where "u = binade \<bar>x\<bar> - 52"
  define q where "q = x / 2 powi u"
  from False have "0 < \<bar>x\<bar>" by simp
  then have "\<bar>x\<bar> < 2 powi (binade \<bar>x\<bar> + 1)"
    using binade_bracket by blast
  also have "binade \<bar>x\<bar> + 1 = 53 + u" by (simp add: u_def)
  also have "(2::real) powi (53 + u) = 2 ^ 53 * 2 powi u"
    by (simp add: power_int_add)
  finally have "\<bar>x\<bar> / 2 powi u < 2 ^ 53"
    by (simp add: field_simps)
  then have "\<bar>q\<bar> < 2 ^ 53"
    by (simp add: q_def power_int_abs)
  then have "- (2 ^ 53) < q" and "q < 2 ^ 53" by linarith+
  then have "- (2 ^ 53) \<le> \<lfloor>q\<rfloor>" and "\<lceil>q\<rceil> \<le> 2 ^ 53"
    by (simp_all add: le_floor_iff ceiling_le_iff)
  with roundTiesToEven_bounds [of q] have "\<bar>roundTiesToEven q\<bar> \<le> 2 ^ 53"
    by linarith
  moreover have "toDouble x = of_int (roundTiesToEven q) * 2 powi u"
    by (simp add: toDouble_def Let_def u_def q_def)
  ultimately show thesis by (intro that)
qed

lemma toDouble_idem: "toDouble (toDouble x) = toDouble x"
proof -
  obtain m e where "toDouble x = of_int m * 2 powi e" and "\<bar>m\<bar> \<le> 2 ^ 53"
    by (rule toDouble_representable)
  then show ?thesis by (rule toDouble_exact)
qed

lemma binade_quarter:
  assumes "0 < x"
  shows "binade (x / 4) = binade x - 2"
proof (rule binade_eqI)
  from binade_bracket [OF assms]
  have lo: "2 powi binade x \<le> x" and hi: "x < 2 powi (binade x + 1)" by simp_all
  have "(2::real) powi (binade x - 2) = 2 powi binade x / 4"
    by (simp add: power_int_diff)
  with lo show "2 powi (binade x - 2) \<le> x / 4" by simp
  have "(2::real) powi (binade x - 2 + 1) = 2 powi (binade x + 1) / 4"
    by (simp add: power_int_add power_int_diff)
  with hi show "x / 4 < 2 powi (binade x - 2 + 1)" by simp
qed

lemma toDouble_quarter: "toDouble (x / 4) = toDouble x / 4"
proof (cases "x = 0")
  case True
  then show ?thesis by (simp add: toDouble_0)
next
  case False
  define u where "u = binade \<bar>x\<bar> - 52"
  from False have "binade (\<bar>x\<bar> / 4) = binade \<bar>x\<bar> - 2"
    by (intro binade_quarter) simp
  then have b: "binade \<bar>x / 4\<bar> - 52 = u - 2"
    by (simp add: u_def)
  have p: "(2::real) powi (u - 2) = 2 powi u / 4"
    by (simp add: power_int_diff)
  have "toDouble (x / 4) = of_int (roundTiesToEven (x / 4 / 2 powi (u - 2))) * 2 powi (u - 2)"
    unfolding toDouble_def Let_def b ..
  also have "\<dots> = of_int (roundTiesToEven (x / 2 powi u)) * 2 powi u / 4"
    unfolding p by simp
  also have "\<dots> = toDouble x / 4"
    by (simp add: toDouble_def Let_def u_def)
  finally show ?thesis .
qed

subsection \<open>Totals\<close>

lemma totalWeeks_foldl: "totalWeeks steps = foldl addDouble 0 (map weeks steps)"
  by (simp add: totalWeeks_def foldl_map)

lemma totalWeeks_Nil: "totalWeeks [] = 0"
  by (simp add: totalWeeks_def)

text \<open>The total is a double: it is 0 or the result of an addition.\<close>

lemma toDouble_totalWeeks: "toDouble (totalWeeks steps) = totalWeeks steps"
proof (cases steps rule: rev_cases)
  case Nil
  then show ?thesis by (simp add: totalWeeks_Nil toDouble_0)
next
  case (snoc front step)
  then show ?thesis by (simp add: totalWeeks_def addDouble_def toDouble_idem)
qed

lemma totalMonths_ceiling: "totalMonths steps = \<lceil>totalWeeks steps / 4\<rceil>"
  by (simp add: totalMonths_def divDouble_def toDouble_quarter toDouble_totalWeeks)

text \<open>Additions of whole numbers are exact up to \<open>2 ^ 53\<close>.\<close>

lemma foldl_addDouble_whole:
  assumes "\<forall>w\<in>set ws. w \<in> \<int> \<and> 0 \<le> w" and "a \<in> \<int>" and "0 \<le> a"
    and "a + sum_list ws \<le> 2 ^ 53"
  shows "foldl addDouble a ws = a + sum_list ws"
  using assms
proof (induction ws arbitrary: a)
  case Nil
  then show ?case by simp
next
  case (Cons w ws)
  from Cons.prems(1) have w: "w \<in> \<int>" "0 \<le> w" and rest: "\<forall>v\<in>set ws. v \<in> \<int> \<and> 0 \<le> v"
    by simp_all
  from rest have "0 \<le> sum_list ws" by (simp add: sum_list_nonneg)
  with Cons.prems(4) have bound: "a + w \<le> 2 ^ 53" by simp
  from w(1) Cons.prems(2) have "a + w \<in> \<int>" by simp
  then obtain m where m: "a + w = of_int m" by (rule Ints_cases)
  with bound w(2) Cons.prems(3) have "0 \<le> m" and "m \<le> 2 ^ 53"
    by (simp_all add: of_int_le_numeral_power_cancel_iff [symmetric] del: of_int_le_numeral_power_cancel_iff)
  then have "toDouble (of_int m) = of_int m"
    by (intro toDouble_of_int) simp
  then have step: "addDouble a w = a + w"
    by (simp add: addDouble_def m)
  have "foldl addDouble (a + w) ws = a + w + sum_list ws"
    using rest \<open>a + w \<in> \<int>\<close> w(2) Cons.prems(3,4) by (intro Cons.IH) simp_all
  with step show ?case by simp
qed

lemma quarter_bounds:
  fixes c w :: real
  assumes "c - 1 < w / 4" "w / 4 \<le> c"
  shows "w \<le> 4 * c \<and> 4 * (c - 1) < w"
  using assms by (simp add: field_simps)

lemma ceiling_quarter_bounds:
  fixes w :: real
  shows "w \<le> 4 * of_int \<lceil>w / 4\<rceil> \<and> 4 * (of_int \<lceil>w / 4\<rceil> - 1) < w"
proof -
  have "of_int \<lceil>w / 4\<rceil> - 1 < w / 4" "w / 4 \<le> of_int \<lceil>w / 4\<rceil>"
    using ceiling_correct [of "w / 4"] by blast+
  then show ?thesis by (rule quarter_bounds)
qed

text \<open>
  Claim C2 (as amended). For the steps built from any input, \<open>totalWeeks\<close> is the sum of
  the weeks of the steps taken from left to right in double-precision arithmetic, every
  partial sum rounded to the nearest double; it is the exact sum of the weeks whenever
  the weeks of every step are a whole number that is not negative and the sum is at most
  \<open>2 ^ 53\<close>. \<open>totalMonths\<close> is the ceiling of \<open>totalWeeks / 4\<close>, the least whole number of
  months whose four weeks each cover the total. The empty input gives no step, 0 weeks
  and 0 months.
\<close>

theorem totals_of_roadmap:
  "totalWeeks (roadmapSteps T ms) = foldl addDouble 0 (map weeks (roadmapSteps T ms))
   \<and> ((\<forall>s\<in>set (roadmapSteps T ms). weeks s \<in> \<int> \<and> 0 \<le> weeks s)
        \<and> sum_list (map weeks (roadmapSteps T ms)) \<le> 2 ^ 53 \<longrightarrow>
      totalWeeks (roadmapSteps T ms) = sum_list (map weeks (roadmapSteps T ms)))
   \<and> totalMonths (roadmapSteps T ms) = \<lceil>totalWeeks (roadmapSteps T ms) / 4\<rceil>
   \<and> totalWeeks (roadmapSteps T ms) \<le> 4 * of_int (totalMonths (roadmapSteps T ms))
   \<and> 4 * (of_int (totalMonths (roadmapSteps T ms)) - 1) < totalWeeks (roadmapSteps T ms)
   \<and> roadmapSteps T [] = []
   \<and> totalWeeks (roadmapSteps T []) = 0
   \<and> totalMonths (roadmapSteps T []) = 0"
proof -
  let ?steps = "roadmapSteps T ms"
  let ?w = "totalWeeks ?steps"
  have fold: "?w = foldl addDouble 0 (map weeks ?steps)"
    by (rule totalWeeks_foldl)
  have whole: "?w = sum_list (map weeks ?steps)"
    if "\<forall>s\<in>set ?steps. weeks s \<in> \<int> \<and> 0 \<le> weeks s"
      and "sum_list (map weeks ?steps) \<le> 2 ^ 53"
  proof -
    have "foldl addDouble 0 (map weeks ?steps) = 0 + sum_list (map weeks ?steps)"
      using that by (intro foldl_addDouble_whole) simp_all
    with fold show ?thesis by simp
  qed
  have months: "totalMonths ?steps = \<lceil>?w / 4\<rceil>"
    by (rule totalMonths_ceiling)
  have bounds: "?w \<le> 4 * of_int (totalMonths ?steps)
      \<and> 4 * (of_int (totalMonths ?steps) - 1) < ?w"
    unfolding months by (rule ceiling_quarter_bounds)
  have empty: "totalWeeks (roadmapSteps T []) = 0 \<and> totalMonths (roadmapSteps T []) = 0"
    by (simp add: roadmapSteps_Nil totalWeeks_Nil totalMonths_ceiling)
  from fold whole months bounds empty roadmapSteps_Nil [of T] show ?thesis
    by blast
qed

text \<open>The Kubernetes entry of 2 months and three skills without an entry: 8, 1, 2 and 4
  weeks make 15 weeks and 4 months.\<close>

theorem totals_of_roadmap_witness:
  "map weeks (roadmapSteps [''Kubernetes'' \<mapsto> \<lparr> SkillTaxonomyEntry.difficulty = Hard,
          learningTimeMonths = 2, SkillTaxonomyEntry.category = ''DevOps'' \<rparr>]
        [''Kubernetes'', ''Go'', ''Python'', ''Databases'']) = [8, 1, 2, 4]
   \<and> sum_list (map weeks (roadmapSteps [''Kubernetes'' \<mapsto> \<lparr> SkillTaxonomyEntry.difficulty = Hard,
          learningTimeMonths = 2, SkillTaxonomyEntry.category = ''DevOps'' \<rparr>]
        [''Kubernetes'', ''Go'', ''Python'', ''Databases''])) \<le> 2 ^ 53
   \<and> totalWeeks (roadmapSteps [''Kubernetes'' \<mapsto> \<lparr> SkillTaxonomyEntry.difficulty = Hard,
          learningTimeMonths = 2, SkillTaxonomyEntry.category = ''DevOps'' \<rparr>]
        [''Kubernetes'', ''Go'', ''Python'', ''Databases'']) = 15
   \<and> totalMonths (roadmapSteps [''Kubernetes'' \<mapsto> \<lparr> SkillTaxonomyEntry.difficulty = Hard,
          learningTimeMonths = 2, SkillTaxonomyEntry.category = ''DevOps'' \<rparr>]
        [''Kubernetes'', ''Go'', ''Python'', ''Databases'']) = 4"
proof -
  let ?S = "roadmapSteps [''Kubernetes'' \<mapsto> \<lparr> SkillTaxonomyEntry.difficulty = Hard,
          learningTimeMonths = 2, SkillTaxonomyEntry.category = ''DevOps'' \<rparr>]
        [''Kubernetes'', ''Go'', ''Python'', ''Databases'']"
  have ws: "map weeks ?S = [8, 1, 2, 4]"
    by (simp add: roadmapSteps_def roadmapStep_def enumerate_eq_zip upt_rec)
  have whole: "\<forall>s\<in>set ?S. weeks s \<in> \<int> \<and> 0 \<le> weeks s"
    by (simp add: roadmapSteps_def roadmapStep_def enumerate_eq_zip upt_rec)
  have bound: "sum_list (map weeks ?S) \<le> 2 ^ 53"
    unfolding ws by simp
  from totals_of_roadmap [of "[''Kubernetes'' \<mapsto> \<lparr> SkillTaxonomyEntry.difficulty = Hard,
          learningTimeMonths = 2, SkillTaxonomyEntry.category = ''DevOps'' \<rparr>]"
      "[''Kubernetes'', ''Go'', ''Python'', ''Databases'']"] whole bound
  have "totalWeeks ?S = sum_list (map weeks ?S)"
    and "totalMonths ?S = \<lceil>totalWeeks ?S / 4\<rceil>"
    by blast+
  then have "totalWeeks ?S = 15" and "totalMonths ?S = 4"
    unfolding ws by simp_all
  with ws bound show ?thesis by blast
qed

text \<open>
  The claim as first stated fails: for the entries of 0.2 and 0.8 months (the doubles
  nearest to them) the weeks are the doubles 0.8 and 3.2, their sum lies above 4 by
  \<open>2 ^ - 52\<close>, and the addition rounds it to 4. The total is 4 weeks and 1 month, where
  the exact sum would give 2 months.
\<close>

theorem totals_rounding_counterexample:
  "map weeks (roadmapSteps [''Docker'' \<mapsto> \<lparr> SkillTaxonomyEntry.difficulty = Medium,
          learningTimeMonths = 3602879701896397 / 18014398509481984,
          SkillTaxonomyEntry.category = ''DevOps'' \<rparr>,
        ''Kubernetes'' \<mapsto> \<lparr> SkillTaxonomyEntry.difficulty = Hard,
          learningTimeMonths = 3602879701896397 / 4503599627370496,
          SkillTaxonomyEntry.category = ''DevOps'' \<rparr>]
        [''Docker'', ''Kubernetes''])
     = [3602879701896397 / 4503599627370496, 3602879701896397 / 1125899906842624]
   \<and> sum_list (map weeks (roadmapSteps [''Docker'' \<mapsto> \<lparr> SkillTaxonomyEntry.difficulty = Medium,
          learningTimeMonths = 3602879701896397 / 18014398509481984,
          SkillTaxonomyEntry.category = ''DevOps'' \<rparr>,
        ''Kubernetes'' \<mapsto> \<lparr> SkillTaxonomyEntry.difficulty = Hard,
          learningTimeMonths = 3602879701896397 / 4503599627370496,
          SkillTaxonomyEntry.category = ''DevOps'' \<rparr>]
        [''Docker'', ''Kubernetes'']))
     = 18014398509481985 / 4503599627370496
   \<and> totalWeeks (roadmapSteps [''Docker'' \<mapsto> \<lparr> SkillTaxonomyEntry.difficulty = Medium,
          learningTimeMonths = 3602879701896397 / 18014398509481984,
          SkillTaxonomyEntry.category = ''DevOps'' \<rparr>,
        ''Kubernetes'' \<mapsto> \<lparr> SkillTaxonomyEntry.difficulty = Hard,
          learningTimeMonths = 3602879701896397 / 4503599627370496,
          SkillTaxonomyEntry.category = ''DevOps'' \<rparr>]
        [''Docker'', ''Kubernetes'']) = 4
   \<and> totalWeeks (roadmapSteps [''Docker'' \<mapsto> \<lparr> SkillTaxonomyEntry.difficulty = Medium,
          learningTimeMonths = 3602879701896397 / 18014398509481984,
          SkillTaxonomyEntry.category = ''DevOps'' \<rparr>,
        ''Kubernetes'' \<mapsto> \<lparr> SkillTaxonomyEntry.difficulty = Hard,
          learningTimeMonths = 3602879701896397 / 4503599627370496,
          SkillTaxonomyEntry.category = ''DevOps'' \<rparr>]
        [''Docker'', ''Kubernetes''])
     \<noteq> sum_list (map weeks (roadmapSteps [''Docker'' \<mapsto> \<lparr> SkillTaxonomyEntry.difficulty = Medium,
          learningTimeMonths = 3602879701896397 / 18014398509481984,
          SkillTaxonomyEntry.category = ''DevOps'' \<rparr>,
        ''Kubernetes'' \<mapsto> \<lparr> SkillTaxonomyEntry.difficulty = Hard,
          learningTimeMonths = 3602879701896397 / 4503599627370496,
          SkillTaxonomyEntry.category = ''DevOps'' \<rparr>]
        [''Docker'', ''Kubernetes'']))
   \<and> totalMonths (roadmapSteps [''Docker'' \<mapsto> \<lparr> SkillTaxonomyEntry.difficulty = Medium,
          learningTimeMonths = 3602879701896397 / 18014398509481984,
          SkillTaxonomyEntry.category = ''DevOps'' \<rparr>,
        ''Kubernetes'' \<mapsto> \<lparr> SkillTaxonomyEntry.difficulty = Hard,
          learningTimeMonths = 3602879701896397 / 4503599627370496,
          SkillTaxonomyEntry.category = ''DevOps'' \<rparr>]
        [''Docker'', ''Kubernetes'']) = 1
   \<and> \<lceil>sum_list (map weeks (roadmapSteps [''Docker'' \<mapsto> \<lparr> SkillTaxonomyEntry.difficulty = Medium,
          learningTimeMonths = 3602879701896397 / 18014398509481984,
          SkillTaxonomyEntry.category = ''DevOps'' \<rparr>,
        ''Kubernetes'' \<mapsto> \<lparr> SkillTaxonomyEntry.difficulty = Hard,
          learningTimeMonths = 3602879701896397 / 4503599627370496,
          SkillTaxonomyEntry.category = ''DevOps'' \<rparr>]
        [''Docker'', ''Kubernetes''])) / 4\<rceil> = 2"
proof -
  let ?S = "roadmapSteps [''Docker'' \<mapsto> \<lparr> SkillTaxonomyEntry.difficulty = Medium,
          learningTimeMonths = 3602879701896397 / 18014398509481984,
          SkillTaxonomyEntry.category = ''DevOps'' \<rparr>,
        ''Kubernetes'' \<mapsto> \<lparr> SkillTaxonomyEntry.difficulty = Hard,
          learningTimeMonths = 3602879701896397 / 4503599627370496,
          SkillTaxonomyEntry.category = ''DevOps'' \<rparr>]
        [''Docker'', ''Kubernetes'']"
  have ws: "map weeks ?S
      = [3602879701896397 / 4503599627370496, 3602879701896397 / 1125899906842624]"
    by (simp add: roadmapSteps_def roadmapStep_def enumerate_eq_zip upt_rec)
  have first: "toDouble (3602879701896397 / 4503599627370496)
      = 3602879701896397 / 4503599627370496"
    by (rule toDouble_exact [where m = 3602879701896397 and e = "- 52"]) simp_all
  have "binade \<bar>18014398509481985 / 4503599627370496\<bar> = 2"
    by (rule binade_eqI) simp_all
  then have second: "toDouble (18014398509481985 / 4503599627370496) = 4"
    by (simp add: toDouble_def Let_def roundTiesToEven_def)
  have total: "totalWeeks ?S = 4"
    unfolding totalWeeks_foldl ws by (simp add: addDouble_def first second)
  have sum: "sum_list (map weeks ?S) = 18014398509481985 / 4503599627370496"
    unfolding ws by simp
  have months: "totalMonths ?S = 1"
    unfolding totalMonths_ceiling total by simp
  have exact: "\<lceil>sum_list (map weeks ?S) / 4\<rceil> = 2"
    unfolding sum by simp
  from ws sum total months exact show ?thesis by simp
qed

subsection \<open>Difficulty, weeks and category of a step\<close>

lemma roadmapStep_entry:
  assumes "T name = Some e"
  shows "difficulty (roadmapStep T name i) = SkillTaxonomyEntry.difficulty e"
    and "weeks (roadmapStep T name i) =
           (if learningTimeMonths e \<noteq> 0 then learningTimeMonths e * 4
            else if SkillTaxonomyEntry.difficulty e = Hard then 4
            else if SkillTaxonomyEntry.difficulty e = Medium then 2 else 1)"
    and "category (roadmapStep T name i) =
           (if SkillTaxonomyEntry.category e \<noteq> [] then SkillTaxonomyEntry.category e
            else ''General'')"
  using assms by (simp_all add: roadmapStep_def Let_def)

lemma roadmapStep_no_entry:
  assumes "T name = None"
  shows "difficulty (roadmapStep T name i) =
           (if length name > 8 then Hard else if length name > 5 then Medium else Easy)"
    and "weeks (roadmapStep T name i) =
           (if length name > 8 then 4 else if length name > 5 then 2 else 1)"
    and "category (roadmapStep T name i) = ''General''"
  using assms by (simp_all add: roadmapStep_def Let_def)

text \<open>
  Claim C3 (as amended). For a skill with a taxonomy entry whose \<open>learningTimeMonths\<close> is
  positive, the step takes the difficulty of the entry, its weeks are exactly
  \<open>learningTimeMonths * 4\<close> (no rounding is applied; this is the rounded-up value whenever
  the product is a whole number), and its category is the category of the entry when
  that is not the empty string and \<open>General\<close> when it is.
\<close>

theorem taxonomy_entry_decides:
  assumes "T name = Some e" and "0 < learningTimeMonths e"
  shows "difficulty (roadmapStep T name i) = SkillTaxonomyEntry.difficulty e
     \<and> weeks (roadmapStep T name i) = learningTimeMonths e * 4
     \<and> (learningTimeMonths e * 4 \<in> \<int> \<longrightarrow>
          weeks (roadmapStep T name i) = of_int \<lceil>learningTimeMonths e * 4\<rceil>)
     \<and> (SkillTaxonomyEntry.category e \<noteq> [] \<longrightarrow>
          category (roadmapStep T name i) = SkillTaxonomyEntry.category e)
     \<and> (SkillTaxonomyEntry.category e = [] \<longrightarrow>
          category (roadmapStep T name i) = ''General'')"
proof -
  have w: "weeks (roadmapStep T name i) = learningTimeMonths e * 4"
    using assms by (simp add: roadmapStep_entry)
  have "learningTimeMonths e * 4 \<in> \<int> \<Longrightarrow>
      of_int \<lceil>learningTimeMonths e * 4\<rceil> = learningTimeMonths e * 4"
    by (auto elim: Ints_cases)
  with w show ?thesis
    using assms(1) by (simp add: roadmapStep_entry)
qed

text \<open>The entry of the specification: Kubernetes, Hard, 2 months, DevOps gives Hard, 8
  weeks, DevOps.\<close>

theorem taxonomy_entry_decides_witness:
  "[''Kubernetes'' \<mapsto> \<lparr> SkillTaxonomyEntry.difficulty = Hard, learningTimeMonths = 2,
       SkillTaxonomyEntry.category = ''DevOps'' \<rparr>] ''Kubernetes''
     = Some \<lparr> SkillTaxonomyEntry.difficulty = Hard, learningTimeMonths = 2,
         SkillTaxonomyEntry.category = ''DevOps'' \<rparr>
   \<and> (0::real) < 2
   \<and> (2::real) * 4 \<in> \<int>
   \<and> ''DevOps'' \<noteq> []
   \<and> difficulty (roadmapStep [''Kubernetes'' \<mapsto> \<lparr> SkillTaxonomyEntry.difficulty = Hard,
         learningTimeMonths = 2, SkillTaxonomyEntry.category = ''DevOps'' \<rparr>] ''Kubernetes'' 0)
       = Hard
   \<and> weeks (roadmapStep [''Kubernetes'' \<mapsto> \<lparr> SkillTaxonomyEntry.difficulty = Hard,
         learningTimeMonths = 2, SkillTaxonomyEntry.category = ''DevOps'' \<rparr>] ''Kubernetes'' 0)
       = 8
   \<and> category (roadmapStep [''Kubernetes'' \<mapsto> \<lparr> SkillTaxonomyEntry.difficulty = Hard,
         learningTimeMonths = 2, SkillTaxonomyEntry.category = ''DevOps'' \<rparr>] ''Kubernetes'' 0)
       = ''DevOps''"
  using taxonomy_entry_decides [of
      "[''Kubernetes'' \<mapsto> \<lparr> SkillTaxonomyEntry.difficulty = Hard, learningTimeMonths = 2,
          SkillTaxonomyEntry.category = ''DevOps'' \<rparr>]"
      "''Kubernetes''"
      "\<lparr> SkillTaxonomyEntry.difficulty = Hard, learningTimeMonths = 2,
          SkillTaxonomyEntry.category = ''DevOps'' \<rparr>" 0]
  by simp

text \<open>
  The claim as first stated fails: an entry of 3/8 months gives 1.5 weeks, where rounding
  up would give 2; and an entry with the empty category gives a step of category
  \<open>General\<close>, not the empty category of the entry.
\<close>

theorem weeks_not_rounded_up_counterexample:
  "[''Docker'' \<mapsto> \<lparr> SkillTaxonomyEntry.difficulty = Medium, learningTimeMonths = 3 / 8,
       SkillTaxonomyEntry.category = ''DevOps'' \<rparr>] ''Docker''
     = Some \<lparr> SkillTaxonomyEntry.difficulty = Medium, learningTimeMonths = 3 / 8,
         SkillTaxonomyEntry.category = ''DevOps'' \<rparr>
   \<and> (0::real) < 3 / 8
   \<and> weeks (roadmapStep [''Docker'' \<mapsto> \<lparr> SkillTaxonomyEntry.difficulty = Medium,
         learningTimeMonths = 3 / 8, SkillTaxonomyEntry.category = ''DevOps'' \<rparr>] ''Docker'' 0)
       = 3 / 2
   \<and> real_of_int \<lceil>(3 / 8 :: real) * 4\<rceil> = 2
   \<and> weeks (roadmapStep [''Docker'' \<mapsto> \<lparr> SkillTaxonomyEntry.difficulty = Medium,
         learningTimeMonths = 3 / 8, SkillTaxonomyEntry.category = ''DevOps'' \<rparr>] ''Docker'' 0)
       \<noteq> real_of_int \<lceil>(3 / 8 :: real) * 4\<rceil>
   \<and> category (roadmapStep [''Docker'' \<mapsto> \<lparr> SkillTaxonomyEntry.difficulty = Medium,
         learningTimeMonths = 1, SkillTaxonomyEntry.category = [] \<rparr>] ''Docker'' 0)
       \<noteq> []"
  by (simp add: roadmapStep_def)

text \<open>
  Claim C4. For a skill without a taxonomy entry the difficulty depends on the length of
  the name alone: more than 8 code units give Hard, 6 to 8 give Medium, at most 5 give
  Easy; the weeks are then 4, 2 and 1.
\<close>

theorem fallback_by_name_length:
  assumes "T name = None"
  shows "(length name > 8 \<longrightarrow>
            difficulty (roadmapStep T name i) = Hard \<and> weeks (roadmapStep T name i) = 4)
     \<and> (6 \<le> length name \<and> length name \<le> 8 \<longrightarrow>
            difficulty (roadmapStep T name i) = Medium \<and> weeks (roadmapStep T name i) = 2)
     \<and> (length name \<le> 5 \<longrightarrow>
            difficulty (roadmapStep T name i) = Easy \<and> weeks (roadmapStep T name i) = 1)"
  using assms by (simp add: roadmapStep_no_entry)

text \<open>The three names of the specification: Databases (9), Python (6) and Go (2).\<close>

theorem fallback_by_name_length_witness:
  "(Map.empty :: string \<rightharpoonup> SkillTaxonomyEntry) ''Databases'' = None
   \<and> length ''Databases'' > 8
   \<and> difficulty (roadmapStep Map.empty ''Databases'' 0) = Hard
   \<and> weeks (roadmapStep Map.empty ''Databases'' 0) = 4
   \<and> 6 \<le> length ''Python'' \<and> length ''Python'' \<le> 8
   \<and> difficulty (roadmapStep Map.empty ''Python'' 1) = Medium
   \<and> weeks (roadmapStep Map.empty ''Python'' 1) = 2
   \<and> length ''Go'' \<le> 5
   \<and> difficulty (roadmapStep Map.empty ''Go'' 2) = Easy
   \<and> weeks (roadmapStep Map.empty ''Go'' 2) = 1"
  using fallback_by_name_length [of Map.empty "''Databases''" 0]
    fallback_by_name_length [of Map.empty "''Python''" 1]
    fallback_by_name_length [of Map.empty "''Go''" 2]
  by simp

subsection \<open>Weeks are positive\<close>

lemma weeks_roadmapStep_positive:
  assumes "\<forall>e\<in>ran T. 0 < learningTimeMonths e"
  shows "0 < weeks (roadmapStep T name i)"
proof (cases "T name")
  case None
  then show ?thesis by (simp add: roadmapStep_no_entry)
next
  case (Some e)
  then have "e \<in> ran T" by (rule ranI)
  with assms have "0 < learningTimeMonths e" by blast
  with Some show ?thesis by (simp add: roadmapStep_entry)
qed

lemma weeks_roadmapStep_whole:
  assumes "\<forall>e\<in>ran T. learningTimeMonths e * 4 \<in> \<int>"
  shows "weeks (roadmapStep T name i) \<in> \<int>"
proof (cases "T name")
  case None
  then show ?thesis by (simp add: roadmapStep_no_entry)
next
  case (Some e)
  then have "e \<in> ran T" by (rule ranI)
  with assms have "learningTimeMonths e * 4 \<in> \<int>" by blast
  with Some show ?thesis by (simp add: roadmapStep_entry)
qed

lemma in_roadmapSteps:
  assumes "st \<in> set (roadmapSteps T ms)"
  obtains i where "i < length ms" and "st = roadmapStep T (ms ! i) i"
proof -
  from assms obtain i where "i < length (roadmapSteps T ms)" and "roadmapSteps T ms ! i = st"
    by (auto simp: in_set_conv_nth)
  then have "i < length ms" and "st = roadmapStep T (ms ! i) i"
    by (simp_all add: length_roadmapSteps nth_roadmapSteps)
  then show thesis by (rule that)
qed

text \<open>
  Claim C7 (as amended). When every \<open>learningTimeMonths\<close> of the taxonomy is positive,
  the weeks of every step are a positive number. They are a whole number when
  \<open>learningTimeMonths * 4\<close> is whole for every entry of the taxonomy (the weeks of a step
  without an entry are 4, 2 or 1).
\<close>

theorem weeks_positive:
  assumes "\<forall>e\<in>ran T. 0 < learningTimeMonths e" and "st \<in> set (roadmapSteps T ms)"
  shows "0 < weeks st \<and> ((\<forall>e\<in>ran T. learningTimeMonths e * 4 \<in> \<int>) \<longrightarrow> weeks st \<in> \<int>)"
proof -
  from assms(2) obtain i where st: "st = roadmapStep T (ms ! i) i"
    by (rule in_roadmapSteps)
  show ?thesis
    unfolding st using assms(1) by (simp add: weeks_roadmapStep_positive weeks_roadmapStep_whole)
qed

text \<open>A taxonomy with the Kubernetes entry and the input Go, Kubernetes.\<close>

theorem weeks_positive_witness:
  "ran [''Kubernetes'' \<mapsto> \<lparr> SkillTaxonomyEntry.difficulty = Hard, learningTimeMonths = 2,
        SkillTaxonomyEntry.category = ''DevOps'' \<rparr>]
      = {\<lparr> SkillTaxonomyEntry.difficulty = Hard, learningTimeMonths = 2,
        SkillTaxonomyEntry.category = ''DevOps'' \<rparr>}
   \<and> (0::real) < 2 \<and> (2::real) * 4 \<in> \<int>
   \<and> roadmapStep [''Kubernetes'' \<mapsto> \<lparr> SkillTaxonomyEntry.difficulty = Hard,
        learningTimeMonths = 2, SkillTaxonomyEntry.category = ''DevOps'' \<rparr>] ''Kubernetes'' 1
      \<in> set (roadmapSteps [''Kubernetes'' \<mapsto> \<lparr> SkillTaxonomyEntry.difficulty = Hard,
        learningTimeMonths = 2, SkillTaxonomyEntry.category = ''DevOps'' \<rparr>]
        [''Go'', ''Kubernetes''])
   \<and> 0 < weeks (roadmapStep [''Kubernetes'' \<mapsto> \<lparr> SkillTaxonomyEntry.difficulty = Hard,
        learningTimeMonths = 2, SkillTaxonomyEntry.category = ''DevOps'' \<rparr>] ''Kubernetes'' 1)
   \<and> weeks (roadmapStep [''Kubernetes'' \<mapsto> \<lparr> SkillTaxonomyEntry.difficulty = Hard,
        learningTimeMonths = 2, SkillTaxonomyEntry.category = ''DevOps'' \<rparr>] ''Kubernetes'' 1)
      \<in> \<int>"
proof -
  let ?T = "[''Kubernetes'' \<mapsto> \<lparr> SkillTaxonomyEntry.difficulty = Hard, learningTimeMonths = 2,
        SkillTaxonomyEntry.category = ''DevOps'' \<rparr>]"
  have pos: "\<forall>e\<in>ran ?T. 0 < learningTimeMonths e" by simp
  have whole: "\<forall>e\<in>ran ?T. learningTimeMonths e * 4 \<in> \<int>" by simp
  have mem: "roadmapStep ?T ''Kubernetes'' 1 \<in> set (roadmapSteps ?T [''Go'', ''Kubernetes''])"
    by (simp add: roadmapSteps_def enumerate_eq_zip upt_rec)
  have "ran ?T = {\<lparr> SkillTaxonomyEntry.difficulty = Hard, learningTimeMonths = 2,
        SkillTaxonomyEntry.category = ''DevOps'' \<rparr>}"
    and "(0::real) < 2" and "(2::real) * 4 \<in> \<int>"
    by simp_all
  with weeks_positive [OF pos mem] whole mem show ?thesis by blast
qed

text \<open>
  The claim as first stated fails: 3/8 is a positive number of months, and the step built
  from it has 1.5 weeks, which is not an integer.
\<close>

theorem weeks_fractional_counterexample:
  "(0::real) < 3 / 8
   \<and> weeks (roadmapSteps [''Docker'' \<mapsto> \<lparr> SkillTaxonomyEntry.difficulty = Medium,
        learningTimeMonths = 3 / 8, SkillTaxonomyEntry.category = ''DevOps'' \<rparr>] [''Docker''] ! 0)
      = 3 / 2
   \<and> weeks (roadmapSteps [''Docker'' \<mapsto> \<lparr> SkillTaxonomyEntry.difficulty = Medium,
        learningTimeMonths = 3 / 8, SkillTaxonomyEntry.category = ''DevOps'' \<rparr>] [''Docker''] ! 0)
      \<notin> \<int>"
  by (simp add: roadmapSteps_def roadmapStep_def enumerate_eq_zip frac_eq_0_iff [symmetric] frac_def)

section \<open>Properties of the generators\<close>

text \<open>
  The encoding yields only code units that may stand in a URI component (unreserved
  ones and the percent sign), and it leaves a name of unreserved code units, such as
  \<open>Kubernetes\<close> or \<open>Node.js\<close>, as it is.
\<close>

lemma hexDigit_unreserved: "uriUnreserved (hexDigit n)"
proof -
  have "hexDigit n \<in> set ''0123456789ABCDEF''"
    unfolding hexDigit_def by (rule nth_mem) simp
  then show ?thesis
    by (auto simp: uriUnreserved_def)
qed

lemma encodeUnit_safe:
  assumes "c \<in> set (encodeUnit d)"
  shows "uriUnreserved c \<or> c = CHR ''%''"
  using assms
  by (auto simp: encodeUnit_def percentByte_def Let_def hexDigit_unreserved split: if_splits)

lemma encodeURIComponent_safe:
  assumes "c \<in> set (encodeURIComponent s)"
  shows "uriUnreserved c \<or> c = CHR ''%''"
  using assms by (auto simp: encodeURIComponent_def dest: encodeUnit_safe)

lemma encodeURIComponent_unreserved:
  assumes "\<forall>c\<in>set s. uriUnreserved c"
  shows "encodeURIComponent s = s"
  using assms by (induction s) (simp_all add: encodeURIComponent_def encodeUnit_def)

lemma length_toLowerCase: "length (toLowerCase s) = length s"
  by (simp add: toLowerCase_def)

text \<open>
  Claim C5. For every skill name \<open>generateResources\<close> returns four resources, a course, a
  video, a project and an article in this order, from Udemy, YouTube, GitHub and Google,
  of 20 hours, 2 hours, 10 hours and 30 mins. Each title holds the name as it is, each
  link holds \<open>encodeURIComponent\<close> of the name, and the GitHub link alone holds it in
  lower case. The name \<open>C++ Basics\<close> shows the encoding at work.
\<close>

theorem generateResources_fixed_shape:
  "length (generateResources name) = 4
   \<and> map type (generateResources name) = [course, video, project, article]
   \<and> map provider (generateResources name) = [''Udemy'', ''YouTube'', ''GitHub'', ''Google'']
   \<and> map duration (generateResources name) = [''20 hours'', ''2 hours'', ''10 hours'', ''30 mins'']
   \<and> map title (generateResources name) =
         [''Complete '' @ name @ '' Masterclass'',
          name @ '' Crash Course'',
          ''Build a '' @ name @ '' Project'',
          name @ '' Best Practices Guide'']
   \<and> map link (generateResources name) =
         [Some (''https://www.udemy.com/courses/search/?q='' @ encodeURIComponent name),
          Some (''https://www.youtube.com/results?search_query='' @ encodeURIComponent name
                @ ''+tutorial''),
          Some (''https://github.com/topics/'' @ toLowerCase (encodeURIComponent name)),
          Some (''https://www.google.com/search?q='' @ encodeURIComponent name
                @ ''+best+practices+guide'')]
   \<and> encodeURIComponent ''C++ Basics'' = ''C%2B%2B%20Basics''
   \<and> map link (generateResources ''C++ Basics'') =
         [Some ''https://www.udemy.com/courses/search/?q=C%2B%2B%20Basics'',
          Some ''https://www.youtube.com/results?search_query=C%2B%2B%20Basics+tutorial'',
          Some ''https://github.com/topics/c%2b%2b%20basics'',
          Some ''https://www.google.com/search?q=C%2B%2B%20Basics+best+practices+guide'']"
proof -
  have shape: "length (generateResources name) = 4
      \<and> map type (generateResources name) = [course, video, project, article]
      \<and> map provider (generateResources name) = [''Udemy'', ''YouTube'', ''GitHub'', ''Google'']
      \<and> map duration (generateResources name)
          = [''20 hours'', ''2 hours'', ''10 hours'', ''30 mins'']"
    by (simp add: generateResources_def Let_def)
  have titles: "map title (generateResources name) =
         [''Complete '' @ name @ '' Masterclass'',
          name @ '' Crash Course'',
          ''Build a '' @ name @ '' Project'',
          name @ '' Best Practices Guide'']"
    by (simp add: generateResources_def Let_def)
  have links: "map link (generateResources name) =
         [Some (''https://www.udemy.com/courses/search/?q='' @ encodeURIComponent name),
          Some (''https://www.youtube.com/results?search_query='' @ encodeURIComponent name
                @ ''+tutorial''),
          Some (''https://github.com/topics/'' @ toLowerCase (encodeURIComponent name)),
          Some (''https://www.google.com/search?q='' @ encodeURIComponent name
                @ ''+best+practices+guide'')]" for name
    by (simp add: generateResources_def Let_def)
  have enc: "encodeURIComponent ''C++ Basics'' = ''C%2B%2B%20Basics''"
    by (simp add: encodeURIComponent_def encodeUnit_def uriUnreserved_def percentByte_def
        hexDigit_def)
  have low: "toLowerCase ''C%2B%2B%20Basics'' = ''c%2b%2b%20basics''"
    by (simp add: toLowerCase_def lowerUnit_def char_of_eq_iff)
  have example: "map link (generateResources ''C++ Basics'') =
         [Some ''https://www.udemy.com/courses/search/?q=C%2B%2B%20Basics'',
          Some ''https://www.youtube.com/results?search_query=C%2B%2B%20Basics+tutorial'',
          Some ''https://github.com/topics/c%2b%2b%20basics'',
          Some ''https://www.google.com/search?q=C%2B%2B%20Basics+best+practices+guide'']"
    unfolding links enc low by simp
  from shape titles links [of name] enc example show ?thesis by blast
qed

text \<open>
  Claim C6 (as amended). For every skill name \<open>generateMilestones\<close> returns four strings
  in a fixed order: fundamentals, exercises, mini-project, real-world scenario. The
  first, third and fourth hold the skill name; the second is the same fixed sentence for
  every skill.
\<close>

theorem generateMilestones_templates:
  "length (generateMilestones name) = 4
   \<and> generateMilestones name ! 0 = ''Understand '' @ name @ '' fundamentals and core concepts''
   \<and> generateMilestones name ! 1 = ''Complete hands-on exercises and tutorials''
   \<and> generateMilestones name ! 2 = ''Build a mini-project using '' @ name
   \<and> generateMilestones name ! 3 = ''Apply '' @ name @ '' in a real-world scenario''
   \<and> sublist name (generateMilestones name ! 0)
   \<and> sublist name (generateMilestones name ! 2)
   \<and> sublist name (generateMilestones name ! 3)
   \<and> generateMilestones name ! 1 = generateMilestones other ! 1"
proof -
  have texts: "length (generateMilestones name) = 4
     \<and> generateMilestones name ! 0 = ''Understand '' @ name @ '' fundamentals and core concepts''
     \<and> generateMilestones name ! 1 = ''Complete hands-on exercises and tutorials''
     \<and> generateMilestones name ! 2 = ''Build a mini-project using '' @ name
     \<and> generateMilestones name ! 3 = ''Apply '' @ name @ '' in a real-world scenario''"
    by (simp add: generateMilestones_def)
  have same: "generateMilestones name ! 1 = generateMilestones other ! 1"
    by (simp add: generateMilestones_def)
  have "sublist name (''Understand '' @ name @ '' fundamentals and core concepts'')"
    and "sublist name (''Build a mini-project using '' @ name @ [])"
    and "sublist name (''Apply '' @ name @ '' in a real-world scenario'')"
    unfolding sublist_def by blast+
  then have inter: "sublist name (generateMilestones name ! 0)
     \<and> sublist name (generateMilestones name ! 2)
     \<and> sublist name (generateMilestones name ! 3)"
    by (simp add: generateMilestones_def)
  from texts same inter show ?thesis by blast
qed

text \<open>
  The claim as first stated fails: the second milestone of \<open>Rust\<close> does not hold the
  name \<open>Rust\<close>.
\<close>

theorem second_milestone_counterexample:
  "generateMilestones ''Rust'' ! 1 = ''Complete hands-on exercises and tutorials''
   \<and> \<not> sublist ''Rust'' (generateMilestones ''Rust'' ! 1)"
  by (simp add: generateMilestones_def sublist_Cons_right)

section \<open>The absent list of missing skills\<close>

text \<open>
  Claim C10. A job without the field \<open>missingSkills\<close> is treated as a job whose list is
  empty: the derived list is empty, no step is built, and the totals are 0 weeks and 0
  months, exactly as for the empty list.
\<close>

theorem absent_missingSkills_is_empty:
  "missingSkills None = []
   \<and> missingSkills None = missingSkills (Some [])
   \<and> roadmapSteps T (missingSkills None) = []
   \<and> roadmapSteps T (missingSkills None) = roadmapSteps T (missingSkills (Some []))
   \<and> totalWeeks (roadmapSteps T (missingSkills None)) = 0
   \<and> totalMonths (roadmapSteps T (missingSkills None)) = 0"
  by (simp add: missingSkills_def roadmapSteps_Nil totalWeeks_Nil totalMonths_ceiling)

section \<open>Properties of the view state\<close>

lemma click_Start_Some:
  "click n StartMyLearningJourney st = Some st' \<longleftrightarrow>
     0 < n \<and> \<not> showLearningPath st \<and> st' = st\<lparr>showLearningPath := True\<rparr>"
  by (auto simp: click_def view_def)

lemma click_Back_Some:
  assumes "view n st = LearningPath"
  shows "click n BackToOverview st = Some (st\<lparr>showLearningPath := False\<rparr>)"
  using assms by (simp add: click_def)

lemma view_LearningPath_iff:
  "view n st = LearningPath \<longleftrightarrow>
     showLearningPath st \<and> 0 \<le> activeSkillIndex st \<and> activeSkillIndex st < int n"
  by (auto simp: view_def)

text \<open>
  Claim C8 (as amended). The step from the overview to the learning path is offered only
  when the roadmap has a step; with an empty roadmap it is refused. Taking it sets
  \<open>showLearningPath\<close> and leaves \<open>activeSkillIndex\<close> as it was, and the learning path is
  shown when that index lies inside the roadmap. So the index is 0 on the first entry,
  from the initial state; and the back action keeps the index as well, so that going
  back from the learning path and entering again returns to the very state that was
  left, with the index it had.
\<close>

theorem start_journey_entry:
  "(click n StartMyLearningJourney st = Some st' \<longrightarrow>
      0 < n \<and> view n st = Overview
      \<and> st' = st\<lparr>showLearningPath := True\<rparr>
      \<and> activeSkillIndex st' = activeSkillIndex st
      \<and> (0 \<le> activeSkillIndex st \<and> activeSkillIndex st < int n \<longrightarrow>
            view n st' = LearningPath))
   \<and> click 0 StartMyLearningJourney st = None
   \<and> (0 < n \<longrightarrow>
        click n StartMyLearningJourney initialState
          = Some \<lparr> showLearningPath = True, activeSkillIndex = 0 \<rparr>
        \<and> view n \<lparr> showLearningPath = True, activeSkillIndex = 0 \<rparr> = LearningPath)
   \<and> (view n st = LearningPath \<longrightarrow>
        click n BackToOverview st = Some (st\<lparr>showLearningPath := False\<rparr>)
        \<and> activeSkillIndex (st\<lparr>showLearningPath := False\<rparr>) = activeSkillIndex st
        \<and> view n (st\<lparr>showLearningPath := False\<rparr>) = Overview
        \<and> click n StartMyLearningJourney (st\<lparr>showLearningPath := False\<rparr>) = Some st
        \<and> clicks n [BackToOverview, StartMyLearningJourney] st = Some st)"
proof -
  have enter: "0 < n \<and> view n st = Overview
      \<and> st' = st\<lparr>showLearningPath := True\<rparr>
      \<and> activeSkillIndex st' = activeSkillIndex st
      \<and> (0 \<le> activeSkillIndex st \<and> activeSkillIndex st < int n \<longrightarrow>
            view n st' = LearningPath)"
    if "click n StartMyLearningJourney st = Some st'"
    using that by (auto simp: click_Start_Some view_def)
  have refuse: "click 0 StartMyLearningJourney st = None"
    by (simp add: click_def view_def)
  have first: "click n StartMyLearningJourney initialState
          = Some \<lparr> showLearningPath = True, activeSkillIndex = 0 \<rparr>
        \<and> view n \<lparr> showLearningPath = True, activeSkillIndex = 0 \<rparr> = LearningPath"
    if "0 < n"
    using that by (simp add: click_def view_def initialState_def)
  have again: "click n BackToOverview st = Some (st\<lparr>showLearningPath := False\<rparr>)
        \<and> activeSkillIndex (st\<lparr>showLearningPath := False\<rparr>) = activeSkillIndex st
        \<and> view n (st\<lparr>showLearningPath := False\<rparr>) = Overview
        \<and> click n StartMyLearningJourney (st\<lparr>showLearningPath := False\<rparr>) = Some st
        \<and> clicks n [BackToOverview, StartMyLearningJourney] st = Some st"
    if lp: "view n st = LearningPath"
  proof -
    from lp have shown: "showLearningPath st" and n: "0 < n"
      by (auto simp: view_def split: if_splits)
    have leave: "click n BackToOverview st = Some (st\<lparr>showLearningPath := False\<rparr>)"
      using lp by (rule click_Back_Some)
    have over: "view n (st\<lparr>showLearningPath := False\<rparr>) = Overview"
      by (simp add: view_def)
    have "st\<lparr>showLearningPath := False\<rparr>\<lparr>showLearningPath := True\<rparr> = st"
      using shown by simp
    then have start: "click n StartMyLearningJourney (st\<lparr>showLearningPath := False\<rparr>) = Some st"
      using n by (simp add: click_Start_Some)
    from leave over start show ?thesis by simp
  qed
  from enter refuse first again show ?thesis by blast
qed

text \<open>A roadmap of three steps: entered with the index 2 kept from before, and left and
  entered again from the learning path on its third step.\<close>

theorem start_journey_entry_witness:
  "click 3 StartMyLearningJourney \<lparr> showLearningPath = False, activeSkillIndex = 2 \<rparr>
     = Some \<lparr> showLearningPath = True, activeSkillIndex = 2 \<rparr>
   \<and> (0::nat) < 3 \<and> (0::int) \<le> 2 \<and> (2::int) < int 3
   \<and> view 3 \<lparr> showLearningPath = False, activeSkillIndex = 2 \<rparr> = Overview
   \<and> view 3 \<lparr> showLearningPath = True, activeSkillIndex = 2 \<rparr> = LearningPath
   \<and> click 0 StartMyLearningJourney \<lparr> showLearningPath = False, activeSkillIndex = 2 \<rparr> = None
   \<and> click 3 StartMyLearningJourney initialState
       = Some \<lparr> showLearningPath = True, activeSkillIndex = 0 \<rparr>
   \<and> click 3 BackToOverview \<lparr> showLearningPath = True, activeSkillIndex = 2 \<rparr>
       = Some \<lparr> showLearningPath = False, activeSkillIndex = 2 \<rparr>
   \<and> clicks 3 [BackToOverview, StartMyLearningJourney]
         \<lparr> showLearningPath = True, activeSkillIndex = 2 \<rparr>
       = Some \<lparr> showLearningPath = True, activeSkillIndex = 2 \<rparr>"
proof -
  have fire: "click 3 StartMyLearningJourney \<lparr> showLearningPath = False, activeSkillIndex = 2 \<rparr>
     = Some \<lparr> showLearningPath = True, activeSkillIndex = 2 \<rparr>"
    by (simp add: click_def view_def)
  have lp: "view 3 \<lparr> showLearningPath = True, activeSkillIndex = 2 \<rparr> = LearningPath"
    by (simp add: view_def)
  have nums: "(0::nat) < 3 \<and> (0::int) \<le> 2 \<and> (2::int) < int 3" by simp
  from start_journey_entry [of 3 "\<lparr> showLearningPath = False, activeSkillIndex = 2 \<rparr>"
      "\<lparr> showLearningPath = True, activeSkillIndex = 2 \<rparr>"] fire
  have a: "view 3 \<lparr> showLearningPath = False, activeSkillIndex = 2 \<rparr> = Overview"
    and b: "click 0 StartMyLearningJourney \<lparr> showLearningPath = False, activeSkillIndex = 2 \<rparr>
       = None"
    and c: "click 3 StartMyLearningJourney initialState
       = Some \<lparr> showLearningPath = True, activeSkillIndex = 0 \<rparr>"
    by simp_all
  from start_journey_entry [of 3 "\<lparr> showLearningPath = True, activeSkillIndex = 2 \<rparr>"] lp
  have d: "click 3 BackToOverview \<lparr> showLearningPath = True, activeSkillIndex = 2 \<rparr>
       = Some \<lparr> showLearningPath = False, activeSkillIndex = 2 \<rparr>"
    and e: "clicks 3 [BackToOverview, StartMyLearningJourney]
         \<lparr> showLearningPath = True, activeSkillIndex = 2 \<rparr>
       = Some \<lparr> showLearningPath = True, activeSkillIndex = 2 \<rparr>"
    by simp_all
  from fire lp nums a b c d e show ?thesis by simp
qed

text \<open>
  The claim as first stated fails on re-entry: start, next, back, start ends in the
  learning path with the index 1.
\<close>

theorem reentry_keeps_index_counterexample:
  "clicks 3 [StartMyLearningJourney, NextSkill, BackToOverview] initialState
     = Some \<lparr> showLearningPath = False, activeSkillIndex = 1 \<rparr>
   \<and> click 3 StartMyLearningJourney \<lparr> showLearningPath = False, activeSkillIndex = 1 \<rparr>
     = Some \<lparr> showLearningPath = True, activeSkillIndex = 1 \<rparr>
   \<and> view 3 \<lparr> showLearningPath = True, activeSkillIndex = 1 \<rparr> = LearningPath
   \<and> activeSkillIndex \<lparr> showLearningPath = True, activeSkillIndex = 1 \<rparr> \<noteq> 0"
  by (simp add: click_def view_def initialState_def)

lemma click_keeps_range:
  assumes "click n c st = Some st'"
    and "0 \<le> activeSkillIndex st" and "activeSkillIndex st < int n \<or> activeSkillIndex st = 0"
  shows "0 \<le> activeSkillIndex st' \<and> (activeSkillIndex st' < int n \<or> activeSkillIndex st' = 0)"
  using assms by (cases c) (auto simp: click_def view_def split: if_splits)

lemma clicks_keep_range:
  assumes "clicks n cs st = Some st'"
    and "0 \<le> activeSkillIndex st" and "activeSkillIndex st < int n \<or> activeSkillIndex st = 0"
  shows "0 \<le> activeSkillIndex st' \<and> (activeSkillIndex st' < int n \<or> activeSkillIndex st' = 0)"
  using assms
proof (induction cs arbitrary: st)
  case Nil
  then show ?case by simp
next
  case (Cons c cs)
  from Cons.prems(1) obtain mid where mid: "click n c st = Some mid"
    and rest: "clicks n cs mid = Some st'"
    by (auto split: option.splits)
  from click_keeps_range [OF mid Cons.prems(2,3)]
  have "0 \<le> activeSkillIndex mid"
    and "activeSkillIndex mid < int n \<or> activeSkillIndex mid = 0"
    by blast+
  with rest show ?case by (rule Cons.IH)
qed

text \<open>From the initial state every sequence of clicks keeps the index inside a roadmap
  that has a step.\<close>

lemma reachable_index_in_range:
  assumes "clicks n cs initialState = Some st" and "0 < n"
  shows "0 \<le> activeSkillIndex st \<and> activeSkillIndex st < int n"
proof -
  have "0 \<le> activeSkillIndex st \<and> (activeSkillIndex st < int n \<or> activeSkillIndex st = 0)"
    using assms(1) by (rule clicks_keep_range) (simp_all add: initialState_def)
  with assms(2) show ?thesis by auto
qed

text \<open>
  Claim C9. In the learning path, with the index inside the roadmap, the button on the
  right sets the index to \<open>min (current + 1) (n - 1)\<close>, the button "Previous Skill" sets it
  to \<open>max (current - 1) 0\<close>, and the sidebar button of a step sets it to the position of
  that step. On the first step "Previous Skill" changes nothing, on the last step the
  button on the right changes nothing, and no click takes the index out of the roadmap.
\<close>

theorem navigation_clamps:
  assumes "view n st = LearningPath"
    and "0 \<le> activeSkillIndex st" and "activeSkillIndex st < int n"
  shows "click n NextSkill st
           = Some (st\<lparr>activeSkillIndex := min (activeSkillIndex st + 1) (int n - 1)\<rparr>)
     \<and> click n PreviousSkill st
           = Some (st\<lparr>activeSkillIndex := max (activeSkillIndex st - 1) 0\<rparr>)
     \<and> (\<forall>idx<n. click n (SidebarStep idx) st = Some (st\<lparr>activeSkillIndex := int idx\<rparr>))
     \<and> (activeSkillIndex st = 0 \<longrightarrow> click n PreviousSkill st = Some st)
     \<and> (activeSkillIndex st = int n - 1 \<longrightarrow> click n NextSkill st = Some st)
     \<and> (\<forall>c st'. click n c st = Some st' \<longrightarrow>
           0 \<le> activeSkillIndex st' \<and> activeSkillIndex st' < int n)"
proof -
  have nxt: "click n NextSkill st
           = Some (st\<lparr>activeSkillIndex := min (activeSkillIndex st + 1) (int n - 1)\<rparr>)"
    using assms by (simp add: click_def min_def)
  have prv: "click n PreviousSkill st
           = Some (st\<lparr>activeSkillIndex := max (activeSkillIndex st - 1) 0\<rparr>)"
    using assms by (simp add: click_def max_def)
  have sel: "\<forall>idx<n. click n (SidebarStep idx) st = Some (st\<lparr>activeSkillIndex := int idx\<rparr>)"
    using assms by (simp add: click_def)
  have first: "activeSkillIndex st = 0 \<longrightarrow> click n PreviousSkill st = Some st"
    using assms by (simp add: click_def)
  have last: "activeSkillIndex st = int n - 1 \<longrightarrow> click n NextSkill st = Some st"
    using assms by (simp add: click_def)
  have range: "0 \<le> activeSkillIndex st' \<and> activeSkillIndex st' < int n"
    if "click n c st = Some st'" for c st'
    using that assms by (cases c) (auto simp: click_def split: if_splits)
  from nxt prv sel first last range show ?thesis by blast
qed

text \<open>A roadmap of three steps, on its last and on its first step.\<close>

theorem navigation_clamps_witness:
  "view 3 \<lparr> showLearningPath = True, activeSkillIndex = 2 \<rparr> = LearningPath
   \<and> (0::int) \<le> 2 \<and> (2::int) < int 3 \<and> (1::nat) < 3 \<and> (2::int) = int 3 - 1
   \<and> click 3 NextSkill \<lparr> showLearningPath = True, activeSkillIndex = 2 \<rparr>
       = Some \<lparr> showLearningPath = True, activeSkillIndex = 2 \<rparr>
   \<and> click 3 PreviousSkill \<lparr> showLearningPath = True, activeSkillIndex = 2 \<rparr>
       = Some \<lparr> showLearningPath = True, activeSkillIndex = 1 \<rparr>
   \<and> click 3 (SidebarStep 1) \<lparr> showLearningPath = True, activeSkillIndex = 2 \<rparr>
       = Some \<lparr> showLearningPath = True, activeSkillIndex = 1 \<rparr>
   \<and> view 3 \<lparr> showLearningPath = True, activeSkillIndex = 0 \<rparr> = LearningPath
   \<and> click 3 PreviousSkill \<lparr> showLearningPath = True, activeSkillIndex = 0 \<rparr>
       = Some \<lparr> showLearningPath = True, activeSkillIndex = 0 \<rparr>
   \<and> click 3 NextSkill \<lparr> showLearningPath = True, activeSkillIndex = 0 \<rparr>
       = Some \<lparr> showLearningPath = True, activeSkillIndex = 1 \<rparr>"
  using navigation_clamps [of 3 "\<lparr> showLearningPath = True, activeSkillIndex = 2 \<rparr>"]
    navigation_clamps [of 3 "\<lparr> showLearningPath = True, activeSkillIndex = 0 \<rparr>"]
  by (simp add: view_def)

end
